theory Spec2Isabelle
  imports Complex_Main "HOL-Library.Monad_Syntax"
begin

section \<open>JavaScript values\<close>

text \<open>
  \<^verbatim>\<open>script.js\<close> builds its data from object literals, array literals, numbers and
  strings, and reads them back by property access. A value of the script is one of:
  \<^item> \<open>JUndefined\<close>, what a read of a missing property gives;
  \<^item> \<open>JNum\<close>, a number. Every number of the script is a decimal literal; it is kept as
    the exact rational the literal denotes. A comparison or a quotient of two such
    literals gives the same answer on the doubles JavaScript rounds them to, as long as
    the two rationals compared are not within rounding distance of each other without
    being equal, which is so for every number below (NaN and the infinities do not occur);
  \<^item> \<open>JStr\<close>, a string. A character outside ASCII is written as the UTF-8 bytes it has
    in the source file;
  \<^item> \<open>JArr\<close>, an array literal;
  \<^item> \<open>JObj\<close>, an object literal: its own properties in the order written;
  \<^item> \<open>JBuiltin\<close>, a function or object of the runtime that a plain object inherits from
    \<^verbatim>\<open>Object.prototype\<close>, named by the property it is found under.
\<close>

datatype jsval =
    JUndefined
  | JNum rat
  | JStr string
  | JArr "jsval list"
  | JObj "(string \<times> jsval) list"
  | JBuiltin string

text \<open>An own property of an object literal; of two equal keys the later one stands.\<close>

definition own_property :: "(string \<times> jsval) list \<Rightarrow> string \<Rightarrow> jsval option" where
  "own_property fs k = map_of (rev fs) k"

text \<open>
  The properties every plain object inherits from \<^verbatim>\<open>Object.prototype\<close> in a browser
  (ECMAScript 20.1.3 and Annex B.2.2): each is a function, but \<^verbatim>\<open>__proto__\<close>, whose
  getter gives the prototype object itself. All of them are truthy.
\<close>

definition object_prototype :: "(string \<times> jsval) list" where
  "object_prototype = map (\<lambda>k. (k, JBuiltin k))
     [''constructor'', ''hasOwnProperty'', ''isPrototypeOf'', ''propertyIsEnumerable'',
      ''toLocaleString'', ''toString'', ''valueOf'', ''__proto__'',
      ''__defineGetter__'', ''__defineSetter__'', ''__lookupGetter__'', ''__lookupSetter__'']"

text \<open>
  The read \<^verbatim>\<open>o[k]\<close> on an object literal: the own property, else the inherited one, else
  \<^verbatim>\<open>undefined\<close>.
\<close>

definition get_property :: "(string \<times> jsval) list \<Rightarrow> string \<Rightarrow> jsval" where
  "get_property fs k =
     (case own_property fs k of
        Some v \<Rightarrow> v
      | None \<Rightarrow> (case map_of object_prototype k of Some v \<Rightarrow> v | None \<Rightarrow> JUndefined))"

text \<open>Truthiness, as \<^verbatim>\<open>||\<close> tests it.\<close>

fun truthy :: "jsval \<Rightarrow> bool" where
  "truthy JUndefined = False"
| "truthy (JNum x) = (x \<noteq> 0)"
| "truthy (JStr s) = (s \<noteq> [])"
| "truthy (JArr xs) = True"
| "truthy (JObj fs) = True"
| "truthy (JBuiltin k) = True"

definition js_or :: "jsval \<Rightarrow> jsval \<Rightarrow> jsval" where
  "js_or a b = (if truthy a then a else b)"

section \<open>The sample payload\<close>

text \<open>\<^verbatim>\<open>const sampleRefereeData = [ ... ]\<close>, lines 4 to 61, literal by literal.\<close>

definition sampleRefereeData :: "jsval list" where
  "sampleRefereeData =
    [JObj [(''id'', JNum 3262),
           (''name'', JStr ''Patric Terelius''),
           (''matches'', JNum 4),
           (''penalties'', JNum 10),
           (''avgPenalties'', JNum (25 / 10)),
           (''homeBias'', JNum (200 / 10)),
           (''observations'', JArr
             [JObj [(''type'', JStr ''TIMING_PATTERN''),
                    (''severity'', JStr ''MEDIUM''),
                    (''description'', JStr
                      ''Calls disproportionate number of penalties in final period (60.0%)'')]])],
     JObj [(''id'', JNum 395),
           (''name'', JStr ''Patrik Trofast''),
           (''matches'', JNum 5),
           (''penalties'', JNum 9),
           (''avgPenalties'', JNum (18 / 10)),
           (''homeBias'', JNum (111 / 10)),
           (''observations'', JArr
             [JObj [(''type'', JStr ''TIMING_PATTERN''),
                    (''severity'', JStr ''MEDIUM''),
                    (''description'', JStr
                      ''Calls disproportionate number of penalties in final period (66.7%)'')],
              JObj [(''type'', JStr ''PENALTY_TYPE_BIAS''),
                    (''severity'', JStr ''LOW''),
                    (''description'', JStr
                      (''Shows strong preference for calling 'Fasth'' @ [CHR 0xC3, CHR 0xA5]
                        @ ''llning, 2 min' (44.4%)''))]])],
     JObj [(''id'', JNum 3216),
           (''name'', JStr ''Martin Jonsson''),
           (''matches'', JNum 1),
           (''penalties'', JNum 5),
           (''avgPenalties'', JNum (50 / 10)),
           (''homeBias'', JNum (200 / 10)),
           (''observations'', JArr
             [JObj [(''type'', JStr ''PENALTY_RATE''),
                    (''severity'', JStr ''MEDIUM''),
                    (''description'', JStr
                      ''Unusually strict referee - calls 5.0 penalties per match vs league average of 2.6'')]])],
     JObj [(''id'', JNum 665),
           (''name'', JStr ''Joakim Mattsson''),
           (''matches'', JNum 1),
           (''penalties'', JNum 5),
           (''avgPenalties'', JNum (50 / 10)),
           (''homeBias'', JNum (200 / 10)),
           (''observations'', JArr
             [JObj [(''type'', JStr ''PENALTY_RATE''),
                    (''severity'', JStr ''MEDIUM''),
                    (''description'', JStr
                      ''Unusually strict referee - calls 5.0 penalties per match'')]])],
     JObj [(''id'', JNum 3225),
           (''name'', JStr (''David Dornl'' @ [CHR 0xC3, CHR 0xB6] @ ''v'')),
           (''matches'', JNum 4),
           (''penalties'', JNum 6),
           (''avgPenalties'', JNum (15 / 10)),
           (''homeBias'', JNum (- (333 / 10))),
           (''observations'', JArr
             [JObj [(''type'', JStr ''HOME_AWAY_BIAS''),
                    (''severity'', JStr ''MEDIUM''),
                    (''description'', JStr
                      ''Shows significant bias AGAINST away team - calls 15.3% more penalties than league average'')]])]]"

section \<open>Referee objects as the script reads them\<close>

text \<open>
  \<^verbatim>\<open>createRefereeCard\<close> and the scatter chart read a referee object by the properties
  \<^verbatim>\<open>id\<close>, \<^verbatim>\<open>name\<close>, \<^verbatim>\<open>matches\<close>, \<^verbatim>\<open>penalties\<close>, \<^verbatim>\<open>avgPenalties\<close>, \<^verbatim>\<open>homeBias\<close> and
  \<^verbatim>\<open>observations\<close>, and an observation by \<^verbatim>\<open>type\<close>, \<^verbatim>\<open>severity\<close> and \<^verbatim>\<open>description\<close>.
  The records below are these reads with the types the script uses them at (numbers
  compared and formatted with \<^verbatim>\<open>toFixed\<close>, strings interpolated, an array mapped over);
  \<open>as_referee\<close> performs the reads and gives \<open>None\<close> where a property is missing or of
  another type. The field \<^verbatim>\<open>id\<close> is called \<open>id_ref\<close>.
\<close>

record observation =
  type :: string
  severity :: string
  description :: string

record referee =
  id_ref :: rat
  name :: string
  matches :: rat
  penalties :: rat
  avgPenalties :: rat
  homeBias :: rat
  observations :: "observation list"

definition num_property :: "(string \<times> jsval) list \<Rightarrow> string \<Rightarrow> rat option" where
  "num_property fs k = (case own_property fs k of Some (JNum x) \<Rightarrow> Some x | _ \<Rightarrow> None)"

definition str_property :: "(string \<times> jsval) list \<Rightarrow> string \<Rightarrow> string option" where
  "str_property fs k = (case own_property fs k of Some (JStr s) \<Rightarrow> Some s | _ \<Rightarrow> None)"

definition arr_property :: "(string \<times> jsval) list \<Rightarrow> string \<Rightarrow> jsval list option" where
  "arr_property fs k = (case own_property fs k of Some (JArr xs) \<Rightarrow> Some xs | _ \<Rightarrow> None)"

fun as_observation :: "jsval \<Rightarrow> observation option" where
  "as_observation (JObj fs) =
     do {
       t \<leftarrow> str_property fs ''type'';
       s \<leftarrow> str_property fs ''severity'';
       d \<leftarrow> str_property fs ''description'';
       Some \<lparr>type = t, severity = s, description = d\<rparr>
     }"
| "as_observation _ = None"

fun all_some :: "'a option list \<Rightarrow> 'a list option" where
  "all_some [] = Some []"
| "all_some (None # xs) = None"
| "all_some (Some x # xs) = map_option ((#) x) (all_some xs)"

fun as_referee :: "jsval \<Rightarrow> referee option" where
  "as_referee (JObj fs) =
     do {
       i \<leftarrow> num_property fs ''id'';
       n \<leftarrow> str_property fs ''name'';
       m \<leftarrow> num_property fs ''matches'';
       p \<leftarrow> num_property fs ''penalties'';
       a \<leftarrow> num_property fs ''avgPenalties'';
       h \<leftarrow> num_property fs ''homeBias'';
       os \<leftarrow> arr_property fs ''observations'';
       obs \<leftarrow> all_some (map as_observation os);
       Some \<lparr>id_ref = i, name = n, matches = m, penalties = p, avgPenalties = a,
             homeBias = h, observations = obs\<rparr>
     }"
| "as_referee _ = None"

text \<open>The payload as the list of referee records read from it, in the array's order.\<close>

definition referee_records :: "referee list" where
  "referee_records = List.map_filter as_referee sampleRefereeData"

section \<open>Rendering a referee card\<close>

text \<open>
  \<^verbatim>\<open>getSeverityEmoji\<close>, lines 259 to 267: a table of four emoji, read with
  \<^verbatim>\<open>emojis[severity]\<close>, and \<^verbatim>\<open>|| '...'\<close> for the fallback. The emoji are the byte
  sequences of the source file: U+1F7E1, U+1F7E0, U+1F534, U+26A0 U+FE0F, and U+1F535 for
  the fallback.
\<close>

definition yellow_circle :: string where
  "yellow_circle = [CHR 0xF0, CHR 0x9F, CHR 0x9F, CHR 0xA1]"

definition orange_circle :: string where
  "orange_circle = [CHR 0xF0, CHR 0x9F, CHR 0x9F, CHR 0xA0]"

definition red_circle :: string where
  "red_circle = [CHR 0xF0, CHR 0x9F, CHR 0x94, CHR 0xB4]"

definition warning_sign :: string where
  "warning_sign = [CHR 0xE2, CHR 0x9A, CHR 0xA0, CHR 0xEF, CHR 0xB8, CHR 0x8F]"

definition blue_circle :: string where
  "blue_circle = [CHR 0xF0, CHR 0x9F, CHR 0x94, CHR 0xB5]"

definition emojis :: "(string \<times> jsval) list" where
  "emojis =
     [(''LOW'', JStr yellow_circle),
      (''MEDIUM'', JStr orange_circle),
      (''HIGH'', JStr red_circle),
      (''CRITICAL'', JStr warning_sign)]"

definition getSeverityEmoji :: "string \<Rightarrow> jsval" where
  "getSeverityEmoji sev = js_or (get_property emojis sev) (JStr blue_circle)"

text \<open>
  \<^verbatim>\<open>createRefereeCard\<close>, lines 195 to 257. The card is kept as what the function computes:
  the class tokens (\<^verbatim>\<open>className\<close>, then each \<^verbatim>\<open>classList.add\<close>), \<^verbatim>\<open>dataset.filter\<close>,
  and the values interpolated into \<^verbatim>\<open>innerHTML\<close> in the template's order. The fixed
  markup between the interpolations is left out, and a number shown with
  \<^verbatim>\<open>toFixed(1)\<close> is kept as the number. The observations block is \<open>None\<close> when the
  template puts the empty string there.
\<close>

record card =
  classList :: "string list"
  dataset_filter :: string
  name_text :: string
  id_text :: rat
  matches_text :: rat
  avgPenalties_text :: rat
  biasColor :: string
  bias_sign :: string
  homeBias_text :: rat
  penalties_text :: rat
  observations_block :: "(jsval \<times> string \<times> string) list option"

definition createRefereeCard :: "referee \<Rightarrow> card" where
  "createRefereeCard referee =
     \<lparr>classList =
        [''referee-card'']
        @ (if length (observations referee) > 0 then [''has-bias''] else [])
        @ (if avgPenalties referee > 35 / 10 then [''strict'']
           else if avgPenalties referee < 20 / 10 then [''lenient''] else []),
      dataset_filter =
        ''all''
        @ (if length (observations referee) > 0 then '' bias'' else [])
        @ (if avgPenalties referee > 35 / 10 then '' strict'' else [])
        @ (if avgPenalties referee < 20 / 10 then '' lenient'' else []),
      name_text = name referee,
      id_text = id_ref referee,
      matches_text = matches referee,
      avgPenalties_text = avgPenalties referee,
      biasColor =
        (if homeBias referee > 15 then ''#ef4444''
         else if homeBias referee < - 15 then ''#3b82f6'' else ''#10b981''),
      bias_sign = (if homeBias referee > 0 then ''+'' else []),
      homeBias_text = homeBias referee,
      penalties_text = penalties referee,
      observations_block =
        (if length (observations referee) > 0
         then Some (map (\<lambda>obs. (getSeverityEmoji (severity obs), severity obs, description obs))
                     (observations referee))
         else None)\<rparr>"

text \<open>
  \<^verbatim>\<open>populateRefereesList\<close>, lines 186 to 193: one card for each element of the payload,
  appended to the children of the list element in the payload's order.
\<close>

definition populateRefereesList :: "card list \<Rightarrow> card list" where
  "populateRefereesList refereesList = refereesList @ map createRefereeCard referee_records"

section \<open>The metrics of the analysis engine\<close>

text \<open>
  Modelled from the spec: the Statistical Processor's metric \<^verbatim>\<open>avgPenalties\<close>. The
  analysis engine that computes it (\<^verbatim>\<open>referee_bias_analyzer.py\<close> in the README's project
  structure) is not among the source files; the payload above stands for its output. The
  spec gives \<^verbatim>\<open>avgPenalties = penalties/matches\<close> and leaves a referee with zero matches
  out of the output, which is \<open>None\<close> here.
\<close>

definition avgPenalties_spec :: "nat \<Rightarrow> nat \<Rightarrow> rat option" where
  "avgPenalties_spec total_penalties total_matches =
     (if total_matches = 0 then None
      else Some (of_nat total_penalties / of_nat total_matches))"

text \<open>
  Modelled from the spec: the Statistical Processor's metric \<^verbatim>\<open>homeBias\<close>, of the same
  missing engine. The spec gives
  \<^verbatim>\<open>homeBias = 100 * (homePenalties - awayPenalties) / totalPenalties\<close>. A penalty is
  called against the home or the away team, so the total is the sum of the two counts;
  the spec gives no value at a total of zero, which is \<open>None\<close> here.
\<close>

definition homeBias_spec :: "nat \<Rightarrow> nat \<Rightarrow> rat option" where
  "homeBias_spec homePenalties awayPenalties =
     (if homePenalties + awayPenalties = 0 then None
      else Some (100 * (of_nat homePenalties - of_nat awayPenalties)
                 / of_nat (homePenalties + awayPenalties)))"

section \<open>The analysis engine of the spec\<close>

text \<open>
  Modelled from the spec: the input of one analysis run, per referee. The engine
  (\<^verbatim>\<open>referee_bias_analyzer.py\<close>) is not among the source files, so it is written here
  from sections 4.1, 4.2 and 6 of the spec. The normalized Match and Penalty records of a
  league-season are taken by what the rules read of them: the referee's identifier, the
  matches officiated, the penalties against the home and against the away team, the
  penalties of the final period, and the penalties of each type.
\<close>

record referee_counts =
  counted_id :: nat
  counted_matches :: nat
  home_penalties :: nat
  away_penalties :: nat
  final_period_penalties :: nat
  type_penalties :: "(string \<times> nat) list"

text \<open>
  Modelled from the spec: \<^verbatim>\<open>totalPenalties\<close>, every penalty being called against one of
  the two teams.
\<close>

definition total_penalties :: "referee_counts \<Rightarrow> nat" where
  "total_penalties c = home_penalties c + away_penalties c"

text \<open>
  Modelled from the spec: the recognized options of the Pattern Detector,
  \<^verbatim>\<open>{minSampleSize, rateDeviationFactor, homeBiasThreshold, timingThreshold,
  typeShareThreshold}\<close>.
\<close>

record detector_config =
  minSampleSize :: nat
  rateDeviationFactor :: rat
  homeBiasThreshold :: rat
  timingThreshold :: rat
  typeShareThreshold :: rat

text \<open>
  Modelled from the spec: the values the spec names for the options: a minimum of 3
  matches, a factor of 1.5, 15 percentage points, 55% and 40%.
\<close>

definition default_config :: detector_config where
  "default_config =
     \<lparr>minSampleSize = 3, rateDeviationFactor = 15 / 10, homeBiasThreshold = 15,
      timingThreshold = 55, typeShareThreshold = 40\<rparr>"

text \<open>
  Modelled from the spec: the two severity scales the spec leaves open. It gives bands
  for PENALTY_RATE and HOME_AWAY_BIAS only; the severity of a TIMING_PATTERN and of a
  PENALTY_TYPE_BIAS, as a function of the share in percent, is an argument of the run.
\<close>

record open_severities =
  timing_severity :: "rat \<Rightarrow> string"
  type_severity :: "rat \<Rightarrow> string"

text \<open>
  Modelled from the spec: an Observation as its kind and its severity. The description
  is "derived from the numeric deviation" with no wording given, and is left out.
\<close>

type_synonym finding = "string \<times> string"

text \<open>
  Modelled from the spec: the league-wide average of penalties per match, the baseline
  of the PENALTY_RATE rule.
\<close>

definition league_average :: "referee_counts list \<Rightarrow> rat option" where
  "league_average league =
     avgPenalties_spec (sum_list (map total_penalties league))
       (sum_list (map counted_matches league))"

text \<open>Modelled from the spec: a share in percent; none of an empty whole.\<close>

definition share :: "nat \<Rightarrow> nat \<Rightarrow> rat option" where
  "share part whole =
     (if whole = 0 then None else Some (100 * of_nat part / of_nat whole))"

text \<open>Modelled from the spec: the penalties of one type among a referee's calls.\<close>

definition type_count :: "(string \<times> nat) list \<Rightarrow> string \<Rightarrow> nat" where
  "type_count tps t = sum_list (map snd (filter (\<lambda>p. fst p = t) tps))"

text \<open>Modelled from the spec: the penalties of one type in the whole league.\<close>

definition league_type_count :: "referee_counts list \<Rightarrow> string \<Rightarrow> nat" where
  "league_type_count league t = sum_list (map (\<lambda>c. type_count (type_penalties c) t) league)"

text \<open>
  Modelled from the spec: PENALTY_RATE, "flag when avgPenalties deviates from league
  average by more than a configurable factor (e.g., \<open>\<ge>\<close>1.5x); MEDIUM at 1.5-2x, HIGH
  above 2x". The factor is the quotient by the league average, which has to be positive.
\<close>

definition penalty_rate_rule ::
  "detector_config \<Rightarrow> referee_counts list \<Rightarrow> referee_counts \<Rightarrow> finding option" where
  "penalty_rate_rule cfg league c =
     (case avgPenalties_spec (total_penalties c) (counted_matches c) of
        None \<Rightarrow> None
      | Some avg \<Rightarrow>
          (case league_average league of
             None \<Rightarrow> None
           | Some l \<Rightarrow>
               if 0 < l \<and> rateDeviationFactor cfg * l \<le> avg
               then Some (''PENALTY_RATE'', if 2 * l < avg then ''HIGH'' else ''MEDIUM'')
               else None))"

text \<open>
  Modelled from the spec: HOME_AWAY_BIAS, "flag when \<open>|homeBias| \<ge> 15\<close>; severity MEDIUM
  at 15-25, HIGH above 25", the 15 being the option \<^verbatim>\<open>homeBiasThreshold\<close>.
\<close>

definition home_away_bias_rule :: "detector_config \<Rightarrow> referee_counts \<Rightarrow> finding option" where
  "home_away_bias_rule cfg c =
     (case homeBias_spec (home_penalties c) (away_penalties c) of
        None \<Rightarrow> None
      | Some b \<Rightarrow>
          if homeBiasThreshold cfg \<le> \<bar>b\<bar>
          then Some (''HOME_AWAY_BIAS'', if 25 < \<bar>b\<bar> then ''HIGH'' else ''MEDIUM'')
          else None)"

text \<open>
  Modelled from the spec: TIMING_PATTERN, "flag when the fraction of a referee's
  penalties called in the final period exceeds a threshold (e.g., \<open>\<ge>\<close>55%)".
\<close>

definition timing_pattern_rule ::
  "detector_config \<Rightarrow> open_severities \<Rightarrow> referee_counts \<Rightarrow> finding option" where
  "timing_pattern_rule cfg sv c =
     (case share (final_period_penalties c) (total_penalties c) of
        None \<Rightarrow> None
      | Some s \<Rightarrow>
          if timingThreshold cfg \<le> s then Some (''TIMING_PATTERN'', timing_severity sv s)
          else None)"

text \<open>
  Modelled from the spec: when a penalty type has "a disproportionate share (e.g.,
  \<open>\<ge>\<close>40%) of a referee's total calls, when league-wide that type's share is materially
  lower". The spec does not say how much lower is material; any lower share counts.
\<close>

definition disproportionate ::
  "detector_config \<Rightarrow> referee_counts list \<Rightarrow> referee_counts \<Rightarrow> string \<times> nat \<Rightarrow> bool" where
  "disproportionate cfg league c p =
     (case share (snd p) (total_penalties c) of
        None \<Rightarrow> False
      | Some s \<Rightarrow>
          (case share (league_type_count league (fst p))
                  (sum_list (map total_penalties league)) of
             None \<Rightarrow> False
           | Some ls \<Rightarrow> typeShareThreshold cfg \<le> s \<and> ls < s))"

text \<open>
  Modelled from the spec: PENALTY_TYPE_BIAS, "flag when any single penalty type" is
  disproportionate: one Observation, for the first such type of the referee.
\<close>

definition penalty_type_bias_rule ::
  "detector_config \<Rightarrow> open_severities \<Rightarrow> referee_counts list \<Rightarrow> referee_counts
     \<Rightarrow> finding option" where
  "penalty_type_bias_rule cfg sv league c =
     (case find (disproportionate cfg league c) (type_penalties c) of
        None \<Rightarrow> None
      | Some p \<Rightarrow>
          (case share (snd p) (total_penalties c) of
             None \<Rightarrow> None
           | Some s \<Rightarrow> Some (''PENALTY_TYPE_BIAS'', type_severity sv s)))"

text \<open>
  Modelled from the spec: the four rules of the Pattern Detector, and the place of each
  in its output.
\<close>

datatype rule = Rate_Rule | Home_Away_Rule | Timing_Rule | Type_Rule

definition all_rules :: "rule list" where
  "all_rules = [Rate_Rule, Home_Away_Rule, Timing_Rule, Type_Rule]"

fun rule_rank :: "rule \<Rightarrow> nat" where
  "rule_rank Rate_Rule = 0"
| "rule_rank Home_Away_Rule = 1"
| "rule_rank Timing_Rule = 2"
| "rule_rank Type_Rule = 3"

fun apply_rule ::
  "detector_config \<Rightarrow> open_severities \<Rightarrow> referee_counts list \<Rightarrow> referee_counts \<Rightarrow> rule
     \<Rightarrow> finding option" where
  "apply_rule cfg sv league c Rate_Rule = penalty_rate_rule cfg league c"
| "apply_rule cfg sv league c Home_Away_Rule = home_away_bias_rule cfg c"
| "apply_rule cfg sv league c Timing_Rule = timing_pattern_rule cfg sv c"
| "apply_rule cfg sv league c Type_Rule = penalty_type_bias_rule cfg sv league c"

text \<open>
  Modelled from the spec: the internal computation of the detector, which evaluates the
  rules in some order of its own (\<open>order\<close>) and keeps each finding with its rule.
\<close>

definition computed_findings ::
  "detector_config \<Rightarrow> open_severities \<Rightarrow> rule list \<Rightarrow> referee_counts list \<Rightarrow> referee_counts
     \<Rightarrow> (rule \<times> finding) list" where
  "computed_findings cfg sv order league c =
     List.map_filter (\<lambda>r. map_option (Pair r) (apply_rule cfg sv league c r)) order"

text \<open>
  Modelled from the spec: the Pattern Detector. Fewer matches than \<^verbatim>\<open>minSampleSize\<close>
  suppress the Observations of the referee; otherwise the findings are put out by the
  place of their rule, whatever the order they were computed in.
\<close>

definition pattern_detector ::
  "detector_config \<Rightarrow> open_severities \<Rightarrow> rule list \<Rightarrow> referee_counts list \<Rightarrow> referee_counts
     \<Rightarrow> finding list" where
  "pattern_detector cfg sv order league c =
     (if counted_matches c < minSampleSize cfg then []
      else map snd (sort_key (\<lambda>rf. rule_rank (fst rf))
                      (computed_findings cfg sv order league c)))"

text \<open>
  Modelled from the spec: the record the output maps a referee's identifier to,
  \<^verbatim>\<open>{matches, penalties, avgPenalties, homeBias, observations}\<close>.
\<close>

record referee_output =
  matches_out :: rat
  penalties_out :: rat
  avgPenalties_out :: "rat option"
  homeBias_out :: "rat option"
  observations_out :: "finding list"

text \<open>
  Modelled from the spec: the output for one referee, the metrics of the Statistical
  Processor with the Observations of the Pattern Detector.
\<close>

definition analyse_referee ::
  "detector_config \<Rightarrow> open_severities \<Rightarrow> rule list \<Rightarrow> referee_counts list \<Rightarrow> referee_counts
     \<Rightarrow> nat \<times> referee_output" where
  "analyse_referee cfg sv order league c =
     (counted_id c,
      \<lparr>matches_out = of_nat (counted_matches c),
       penalties_out = of_nat (total_penalties c),
       avgPenalties_out = avgPenalties_spec (total_penalties c) (counted_matches c),
       homeBias_out = homeBias_spec (home_penalties c) (away_penalties c),
       observations_out = pattern_detector cfg sv order league c\<rparr>)"

text \<open>
  Modelled from the spec: one analysis run over a league-season. A referee with zero
  matches has no entry in the output.
\<close>

definition analyse ::
  "detector_config \<Rightarrow> open_severities \<Rightarrow> rule list \<Rightarrow> referee_counts list
     \<Rightarrow> (nat \<times> referee_output) list" where
  "analyse cfg sv order league =
     map (analyse_referee cfg sv order league) (filter (\<lambda>c. 0 < counted_matches c) league)"

text \<open>
  Modelled from the spec: an internal order that is a run of the whole detector, each of
  the four rules being evaluated once.
\<close>

definition runs_every_rule_once :: "rule list \<Rightarrow> bool" where
  "runs_every_rule_once order = (distinct order \<and> set order = set all_rules)"

text \<open>
  Modelled from the spec: the input of the end-to-end example, "one referee, 4 matches,
  10 penalties, 6 home / 4 away, final period skew 60%", under the identifier of the first
  record of the payload. The example gives no penalty types; they are an argument.
\<close>

definition example_input :: "(string \<times> nat) list \<Rightarrow> referee_counts" where
  "example_input tps =
     \<lparr>counted_id = 3262, counted_matches = 4, home_penalties = 6, away_penalties = 4,
      final_period_penalties = 6, type_penalties = tps\<rparr>"

section \<open>The order of observation kinds\<close>

text \<open>
  The fixed order the spec gives for the observations of one referee, and what it is for
  a list of kinds to follow it: every kind is one of the four, and the positions in the
  fixed order do not decrease along the list.
\<close>

definition kind_order :: "string list" where
  "kind_order = [''PENALTY_RATE'', ''HOME_AWAY_BIAS'', ''TIMING_PATTERN'', ''PENALTY_TYPE_BIAS'']"

fun position :: "'a list \<Rightarrow> 'a \<Rightarrow> nat" where
  "position [] x = 0"
| "position (y # ys) x = (if x = y then 0 else Suc (position ys x))"

definition in_kind_order :: "string list \<Rightarrow> bool" where
  "in_kind_order ks = (set ks \<subseteq> set kind_order \<and> sorted (map (position kind_order) ks))"

section \<open>The shape of the payload\<close>

text \<open>
  The five fields the spec lists for a referee record, and the shape of the objects of
  the payload as predicates on values: which properties an object has, in which order,
  and of which type each is.
\<close>

definition spec_record_fields :: "string list" where
  "spec_record_fields =
     [''matches'', ''penalties'', ''avgPenalties'', ''homeBias'', ''observations'']"

fun property_names :: "jsval \<Rightarrow> string list" where
  "property_names (JObj fs) = map fst fs"
| "property_names v = []"

fun is_number :: "jsval \<Rightarrow> bool" where
  "is_number (JNum x) = True"
| "is_number v = False"

fun is_string :: "jsval \<Rightarrow> bool" where
  "is_string (JStr s) = True"
| "is_string v = False"

definition observation_shape :: "jsval \<Rightarrow> bool" where
  "observation_shape v =
     (case v of
        JObj fs \<Rightarrow> map fst fs = [''type'', ''severity'', ''description'']
                    \<and> list_all is_string (map snd fs)
      | _ \<Rightarrow> False)"

definition referee_shape :: "jsval \<Rightarrow> bool" where
  "referee_shape v =
     (case v of
        JObj fs \<Rightarrow>
          map fst fs = ''id'' # ''name'' # spec_record_fields
          \<and> list_all (\<lambda>k. is_number (get_property fs k))
               [''id'', ''matches'', ''penalties'', ''avgPenalties'', ''homeBias'']
          \<and> is_string (get_property fs ''name'')
          \<and> (case get_property fs ''observations'' of
                JArr os \<Rightarrow> list_all observation_shape os
              | _ \<Rightarrow> False)
      | _ \<Rightarrow> False)"

section \<open>The records of the payload\<close>

text \<open>Every object of the payload reads as a referee record: nothing is dropped.\<close>

lemma payload_read: "map as_referee sampleRefereeData = map Some referee_records"
  by code_simp

lemma length_referee_records: "length referee_records = 5"
  by code_simp

text \<open>The cards of the page: classes, filter words and bias colour of each referee.\<close>

lemma cards_of_payload:
  "map (\<lambda>c. (classList c, dataset_filter c, biasColor c)) (populateRefereesList []) =
     [([''referee-card'', ''has-bias''], ''all bias'', ''#ef4444''),
      ([''referee-card'', ''has-bias'', ''lenient''], ''all bias lenient'', ''#10b981''),
      ([''referee-card'', ''has-bias'', ''strict''], ''all bias strict'', ''#ef4444''),
      ([''referee-card'', ''has-bias'', ''strict''], ''all bias strict'', ''#ef4444''),
      ([''referee-card'', ''has-bias'', ''lenient''], ''all bias lenient'', ''#3b82f6'')]"
  by code_simp

subsection \<open>Home and away bias\<close>

text \<open>
  C1, as amended. The claim is that every record with \<open>|homeBias| \<ge> 15\<close> carries a
  HOME_AWAY_BIAS observation, of severity MEDIUM up to 25 and HIGH above. The payload
  has it the other way round: a HOME_AWAY_BIAS observation occurs only in a record with
  \<open>|homeBias| \<ge> 15\<close>, and every one that occurs has severity MEDIUM.
\<close>

theorem home_away_bias_only_above_threshold:
  "\<forall>r \<in> set referee_records. \<forall>ob \<in> set (observations r).
     type ob = ''HOME_AWAY_BIAS'' \<longrightarrow> 15 \<le> \<bar>homeBias r\<bar> \<and> severity ob = ''MEDIUM''"
  by code_simp

theorem home_away_bias_only_above_threshold_witness:
  "referee_records ! 4 \<in> set referee_records
   \<and> observations (referee_records ! 4) ! 0 \<in> set (observations (referee_records ! 4))
   \<and> type (observations (referee_records ! 4) ! 0) = ''HOME_AWAY_BIAS''
   \<and> 15 \<le> \<bar>homeBias (referee_records ! 4)\<bar>
   \<and> severity (observations (referee_records ! 4) ! 0) = ''MEDIUM''"
proof -
  have r: "referee_records ! 4 \<in> set referee_records"
    by code_simp
  have ob: "observations (referee_records ! 4) ! 0 \<in> set (observations (referee_records ! 4))"
    by code_simp
  have ty: "type (observations (referee_records ! 4) ! 0) = ''HOME_AWAY_BIAS''"
    by code_simp
  from home_away_bias_only_above_threshold [rule_format, OF r ob ty] r ob ty
  show ?thesis by blast
qed

text \<open>
  The claim as stated fails on the payload. The first record has \<open>homeBias = 20.0\<close> and
  one observation, a TIMING_PATTERN; the fifth has \<open>homeBias = -33.3\<close>, above 25 in
  absolute value, and its HOME_AWAY_BIAS observation has severity MEDIUM, not HIGH.
\<close>

theorem home_away_bias_counterexample:
  "homeBias (referee_records ! 0) = 20
   \<and> map type (observations (referee_records ! 0)) = [''TIMING_PATTERN'']
   \<and> homeBias (referee_records ! 4) = - (333 / 10)
   \<and> map (\<lambda>ob. (type ob, severity ob)) (observations (referee_records ! 4))
       = [(''HOME_AWAY_BIAS'', ''MEDIUM'')]
   \<and> \<not> (\<forall>r \<in> set referee_records. 15 \<le> \<bar>homeBias r\<bar> \<longrightarrow>
          (\<exists>ob \<in> set (observations r). type ob = ''HOME_AWAY_BIAS''
             \<and> (\<bar>homeBias r\<bar> \<le> 25 \<longrightarrow> severity ob = ''MEDIUM'')
             \<and> (25 < \<bar>homeBias r\<bar> \<longrightarrow> severity ob = ''HIGH'')))"
  by code_simp

subsection \<open>Small samples\<close>

text \<open>
  C2, as amended. The claim is that a record with fewer than 3 matches carries no
  significance-based observation and still reports its raw counts. In the payload the
  records with fewer than 3 matches report their counts (1 match, 5 penalties) and each
  carries one observation, a PENALTY_RATE of severity MEDIUM: nothing is suppressed.
\<close>

theorem small_sample_records:
  "\<forall>r \<in> set referee_records. matches r < 3 \<longrightarrow>
     matches r = 1 \<and> penalties r = 5
     \<and> map (\<lambda>ob. (type ob, severity ob)) (observations r) = [(''PENALTY_RATE'', ''MEDIUM'')]"
  by code_simp

theorem small_sample_records_witness:
  "referee_records ! 2 \<in> set referee_records
   \<and> matches (referee_records ! 2) < 3
   \<and> matches (referee_records ! 2) = 1 \<and> penalties (referee_records ! 2) = 5
   \<and> map (\<lambda>ob. (type ob, severity ob)) (observations (referee_records ! 2))
       = [(''PENALTY_RATE'', ''MEDIUM'')]"
proof -
  have r: "referee_records ! 2 \<in> set referee_records"
    by code_simp
  have m: "matches (referee_records ! 2) < 3"
    by code_simp
  from small_sample_records [rule_format, OF r m] r m
  show ?thesis by blast
qed

text \<open>
  The third and the fourth record have one match each, below the minimum of 3, and each
  has a PENALTY_RATE observation in its list.
\<close>

theorem small_sample_counterexample:
  "id_ref (referee_records ! 2) = 3216 \<and> matches (referee_records ! 2) = 1
   \<and> map type (observations (referee_records ! 2)) = [''PENALTY_RATE'']
   \<and> id_ref (referee_records ! 3) = 665 \<and> matches (referee_records ! 3) = 1
   \<and> map type (observations (referee_records ! 3)) = [''PENALTY_RATE'']"
  by code_simp

subsection \<open>The end-to-end example\<close>









subsection \<open>The average\<close>

text \<open>
  C4. For every referee record of the sample payload, \<^verbatim>\<open>avgPenalties\<close> equals
  \<^verbatim>\<open>penalties / matches\<close>, and \<^verbatim>\<open>matches\<close> is not zero. The equality is exact on the
  decimal literals; on doubles both sides are the rounding of the same rational, so
  they are equal there too.
\<close>

theorem avgPenalties_is_quotient:
  "\<forall>r \<in> set referee_records. matches r \<noteq> 0 \<and> avgPenalties r = penalties r / matches r"
  by code_simp

theorem avgPenalties_is_quotient_witness:
  "referee_records ! 1 \<in> set referee_records
   \<and> matches (referee_records ! 1) = 5 \<and> penalties (referee_records ! 1) = 9
   \<and> avgPenalties (referee_records ! 1) = 18 / 10
   \<and> avgPenalties (referee_records ! 1)
       = penalties (referee_records ! 1) / matches (referee_records ! 1)"
proof -
  have r: "referee_records ! 1 \<in> set referee_records"
    by code_simp
  have vals: "matches (referee_records ! 1) = 5 \<and> penalties (referee_records ! 1) = 9
      \<and> avgPenalties (referee_records ! 1) = 18 / 10"
    by code_simp
  from bspec [OF avgPenalties_is_quotient r] r vals
  show ?thesis by blast
qed

subsection \<open>The order of the observations\<close>

text \<open>Each rule names its own kind, and its place is the kind's place in the fixed order.\<close>

lemma apply_rule_kind:
  assumes "apply_rule cfg sv league c r = Some f"
  shows "fst f \<in> set kind_order \<and> position kind_order (fst f) = rule_rank r"
  using assms
  by (cases r)
    (auto simp add: penalty_rate_rule_def home_away_bias_rule_def timing_pattern_rule_def
      penalty_type_bias_rule_def kind_order_def split: option.splits if_splits)

lemma computed_findings_member:
  "(r, f) \<in> set (computed_findings cfg sv order league c)
     \<longleftrightarrow> r \<in> set order \<and> apply_rule cfg sv league c r = Some f"
  by (induction order)
    (auto simp add: computed_findings_def map_filter_simps split: option.splits)

lemma computed_findings_kind:
  assumes "rf \<in> set (computed_findings cfg sv order league c)"
  shows "fst (snd rf) \<in> set kind_order \<and> position kind_order (fst (snd rf)) = rule_rank (fst rf)"
proof -
  obtain r f where rf: "rf = (r, f)"
    by (cases rf)
  with assms have "apply_rule cfg sv league c r = Some f"
    by (simp add: computed_findings_member)
  from apply_rule_kind [OF this] show ?thesis
    by (simp add: rf)
qed

text \<open>Whatever the input and the internal order, the detector's output is in kind order.\<close>

lemma pattern_detector_in_kind_order:
  "in_kind_order (map fst (pattern_detector cfg sv order league c))"
proof (cases "counted_matches c < minSampleSize cfg")
  case True
  then show ?thesis
    by (simp add: pattern_detector_def in_kind_order_def)
next
  case False
  let ?key = "\<lambda>rf :: rule \<times> finding. rule_rank (fst rf)"
  let ?found = "computed_findings cfg sv order league c"
  let ?arranged = "sort_key ?key ?found"
  have kinds: "map (position kind_order) (map fst (map snd ?arranged)) = map ?key ?arranged"
    by (simp add: computed_findings_kind)
  have "set (map fst (map snd ?arranged)) \<subseteq> set kind_order"
    by (auto dest: computed_findings_kind)
  moreover have "sorted (map (position kind_order) (map fst (map snd ?arranged)))"
    unfolding kinds by (rule sorted_sort_key)
  ultimately have "in_kind_order (map fst (map snd ?arranged))"
    unfolding in_kind_order_def ..
  with False show ?thesis
    by (simp only: pattern_detector_def if_False)
qed

lemma rule_rank_inj: "rule_rank r = rule_rank r' \<Longrightarrow> r = r'"
  by (cases r; cases r') simp_all

lemma computed_findings_distinct:
  assumes "distinct order"
  shows "distinct (map (\<lambda>rf. rule_rank (fst rf)) (computed_findings cfg sv order league c))"
proof -
  have "map fst (computed_findings cfg sv order league c)
      = filter (\<lambda>r. apply_rule cfg sv league c r \<noteq> None) order"
    by (induction order) (auto simp add: computed_findings_def List.map_filter_def)
  with assms have "distinct (map fst (computed_findings cfg sv order league c))"
    by simp
  then have "distinct (map rule_rank (map fst (computed_findings cfg sv order league c)))"
    by (simp add: distinct_map inj_on_def rule_rank_inj)
  then show ?thesis
    by (simp add: comp_def)
qed

text \<open>
  Two internal orders over the same rules, each rule once, leave the same arranged
  findings: the places are sorted and pairwise distinct, and a place determines its
  finding.
\<close>

lemma arranged_unique:
  assumes d1: "distinct order1" and d2: "distinct order2" and s: "set order1 = set order2"
  shows "sort_key (\<lambda>rf. rule_rank (fst rf)) (computed_findings cfg sv order1 league c)
       = sort_key (\<lambda>rf. rule_rank (fst rf)) (computed_findings cfg sv order2 league c)"
proof -
  let ?key = "\<lambda>rf :: rule \<times> finding. rule_rank (fst rf)"
  let ?f1 = "computed_findings cfg sv order1 league c"
  let ?f2 = "computed_findings cfg sv order2 league c"
  have same: "set ?f1 = set ?f2"
    using s by (auto simp add: computed_findings_member)
  have inj: "inj_on ?key (set ?f1)"
    by (rule inj_onI) (auto simp add: computed_findings_member dest!: rule_rank_inj intro: prod_eqI)
  have "map ?key (sort_key ?key ?f1) = map ?key (sort_key ?key ?f2)"
  proof (rule sorted_distinct_set_unique)
    show "sorted (map ?key (sort_key ?key ?f1))" "sorted (map ?key (sort_key ?key ?f2))"
      by (rule sorted_sort_key)+
    show "distinct (map ?key (sort_key ?key ?f1))"
      using computed_findings_distinct [OF d1, of cfg sv league c]
      by (simp add: distinct_map)
    show "distinct (map ?key (sort_key ?key ?f2))"
      using computed_findings_distinct [OF d2, of cfg sv league c]
      by (simp add: distinct_map)
    show "set (map ?key (sort_key ?key ?f1)) = set (map ?key (sort_key ?key ?f2))"
      using same by simp
  qed
  moreover have "inj_on ?key (set (sort_key ?key ?f1) \<union> set (sort_key ?key ?f2))"
    using inj same by simp
  ultimately show ?thesis
    by (simp add: inj_on_map_eq_map)
qed

text \<open>Two runs on the same input agree, in whatever order each evaluates the rules.\<close>

lemma analyse_order:
  assumes "runs_every_rule_once order1" and "runs_every_rule_once order2"
  shows "analyse cfg sv order1 league = analyse cfg sv order2 league"
proof -
  from assms have "distinct order1" "distinct order2" "set order1 = set order2"
    by (simp_all add: runs_every_rule_once_def)
  then have "pattern_detector cfg sv order1 league c = pattern_detector cfg sv order2 league c"
    for c
    by (simp add: pattern_detector_def arranged_unique [of order1 order2])
  then show ?thesis
    by (simp add: analyse_def analyse_referee_def)
qed

text \<open>
  C5. In every referee record of the payload the observations follow the fixed order of
  kinds PENALTY_RATE, HOME_AWAY_BIAS, TIMING_PATTERN, PENALTY_TYPE_BIAS, and every kind
  is one of these four. So do the observations the Pattern Detector puts out, for every
  configuration, every league-season, every referee and every internal order of
  computation. Two runs of the analysis on the same input give the same output, order and
  content, whatever the order in which each run evaluates the four rules.
\<close>

theorem observations_in_kind_order:
  "(\<forall>r \<in> set referee_records. in_kind_order (map type (observations r)))
   \<and> (\<forall>cfg sv order league c.
         in_kind_order (map fst (pattern_detector cfg sv order league c)))
   \<and> (\<forall>cfg sv order1 order2 league.
         runs_every_rule_once order1 \<and> runs_every_rule_once order2 \<longrightarrow>
         analyse cfg sv order1 league = analyse cfg sv order2 league)"
proof (intro conjI allI impI)
  show "\<forall>r \<in> set referee_records. in_kind_order (map type (observations r))"
    by code_simp
next
  fix cfg sv order league c
  show "in_kind_order (map fst (pattern_detector cfg sv order league c))"
    by (rule pattern_detector_in_kind_order)
next
  fix cfg sv order1 order2 league
  assume "runs_every_rule_once order1 \<and> runs_every_rule_once order2"
  then show "analyse cfg sv order1 league = analyse cfg sv order2 league"
    using analyse_order by blast
qed

theorem observations_in_kind_order_witness:
  "referee_records ! 1 \<in> set referee_records
   \<and> map type (observations (referee_records ! 1)) = [''TIMING_PATTERN'', ''PENALTY_TYPE_BIAS'']
   \<and> in_kind_order (map type (observations (referee_records ! 1)))
   \<and> runs_every_rule_once [Type_Rule, Timing_Rule, Home_Away_Rule, Rate_Rule]
   \<and> runs_every_rule_once all_rules
   \<and> analyse default_config
        \<lparr>timing_severity = (\<lambda>s. ''MEDIUM''), type_severity = (\<lambda>s. ''LOW'')\<rparr>
        [Type_Rule, Timing_Rule, Home_Away_Rule, Rate_Rule]
        [example_input [(''hooking'', 5), (''slashing'', 5)],
         \<lparr>counted_id = 395, counted_matches = 3, home_penalties = 30, away_penalties = 10,
          final_period_penalties = 8, type_penalties = [(''slashing'', 40)]\<rparr>]
     = analyse default_config
        \<lparr>timing_severity = (\<lambda>s. ''MEDIUM''), type_severity = (\<lambda>s. ''LOW'')\<rparr>
        all_rules
        [example_input [(''hooking'', 5), (''slashing'', 5)],
         \<lparr>counted_id = 395, counted_matches = 3, home_penalties = 30, away_penalties = 10,
          final_period_penalties = 8, type_penalties = [(''slashing'', 40)]\<rparr>]
   \<and> map (\<lambda>out. map fst (observations_out (snd out)))
        (analyse default_config
          \<lparr>timing_severity = (\<lambda>s. ''MEDIUM''), type_severity = (\<lambda>s. ''LOW'')\<rparr>
          [Type_Rule, Timing_Rule, Home_Away_Rule, Rate_Rule]
          [example_input [(''hooking'', 5), (''slashing'', 5)],
           \<lparr>counted_id = 395, counted_matches = 3, home_penalties = 30, away_penalties = 10,
            final_period_penalties = 8, type_penalties = [(''slashing'', 40)]\<rparr>])
     = [[''HOME_AWAY_BIAS'', ''TIMING_PATTERN'', ''PENALTY_TYPE_BIAS''],
        [''PENALTY_RATE'', ''HOME_AWAY_BIAS'', ''PENALTY_TYPE_BIAS'']]"
proof -
  have r: "referee_records ! 1 \<in> set referee_records"
    by code_simp
  have kinds: "map type (observations (referee_records ! 1))
      = [''TIMING_PATTERN'', ''PENALTY_TYPE_BIAS'']"
    by code_simp
  have o1: "runs_every_rule_once [Type_Rule, Timing_Rule, Home_Away_Rule, Rate_Rule]"
    by code_simp
  have o2: "runs_every_rule_once all_rules"
    by code_simp
  have out: "map (\<lambda>out. map fst (observations_out (snd out)))
        (analyse default_config
          \<lparr>timing_severity = (\<lambda>s. ''MEDIUM''), type_severity = (\<lambda>s. ''LOW'')\<rparr>
          [Type_Rule, Timing_Rule, Home_Away_Rule, Rate_Rule]
          [example_input [(''hooking'', 5), (''slashing'', 5)],
           \<lparr>counted_id = 395, counted_matches = 3, home_penalties = 30, away_penalties = 10,
            final_period_penalties = 8, type_penalties = [(''slashing'', 40)]\<rparr>])
     = [[''HOME_AWAY_BIAS'', ''TIMING_PATTERN'', ''PENALTY_TYPE_BIAS''],
        [''PENALTY_RATE'', ''HOME_AWAY_BIAS'', ''PENALTY_TYPE_BIAS'']]"
    by code_simp
  note all = observations_in_kind_order
  from bspec [OF conjunct1 [OF all] r]
    conjunct2 [OF conjunct2 [OF all], rule_format, OF conjI [OF o1 o2]]
    r kinds o1 o2 out
  show ?thesis by blast
qed

subsection \<open>The shape of a record\<close>

text \<open>
  C6, as amended. The claim is that a referee record has exactly the fields
  \<open>matches\<close>, \<open>penalties\<close>, \<open>avgPenalties\<close>, \<open>homeBias\<close>, \<open>observations\<close>, keyed by the
  referee's identifier. In the payload every element is a flat object with exactly the
  properties \<open>id\<close>, \<open>name\<close> and these five, in this order; \<open>id\<close>, \<open>matches\<close>,
  \<open>penalties\<close>, \<open>avgPenalties\<close> and \<open>homeBias\<close> are numbers, \<open>name\<close> is a string, and
  \<open>observations\<close> is an array of objects with exactly the string properties \<open>type\<close>,
  \<open>severity\<close>, \<open>description\<close>. The identifiers are pairwise distinct, so the array
  determines a mapping from identifier to record.
\<close>

theorem payload_shape:
  "(\<forall>v \<in> set sampleRefereeData. referee_shape v) \<and> distinct (map id_ref referee_records)"
  by code_simp

theorem payload_shape_witness:
  "sampleRefereeData ! 4 \<in> set sampleRefereeData
   \<and> referee_shape (sampleRefereeData ! 4)
   \<and> get_property (case sampleRefereeData ! 4 of JObj fs \<Rightarrow> fs | _ \<Rightarrow> []) ''homeBias''
       = JNum (- (333 / 10))"
proof -
  have v: "sampleRefereeData ! 4 \<in> set sampleRefereeData"
    by code_simp
  have h: "get_property (case sampleRefereeData ! 4 of JObj fs \<Rightarrow> fs | _ \<Rightarrow> []) ''homeBias''
      = JNum (- (333 / 10))"
    by code_simp
  from bspec [OF conjunct1 [OF payload_shape] v] v h
  show ?thesis by blast
qed

text \<open>
  The first element of the payload has seven properties; \<open>name\<close> is neither the
  identifier nor one of the five fields of the claim.
\<close>

theorem payload_shape_counterexample:
  "property_names (sampleRefereeData ! 0)
     = [''id'', ''name'', ''matches'', ''penalties'', ''avgPenalties'', ''homeBias'',
        ''observations'']
   \<and> ''name'' \<in> set (property_names (sampleRefereeData ! 0))
   \<and> ''name'' \<notin> set (''id'' # spec_record_fields)
   \<and> set (property_names (sampleRefereeData ! 0)) \<noteq> set spec_record_fields"
  by code_simp

subsection \<open>No record without a match\<close>

text \<open>
  C7. Every referee record present in the payload has \<open>matches > 0\<close>: no record stands
  for a referee with zero matches, so the quotient \<open>penalties / matches\<close> never has a zero
  divisor. Nothing in \<^verbatim>\<open>createRefereeCard\<close> tests \<open>matches\<close>; it shows the stored average.
\<close>

theorem matches_positive:
  "\<forall>r \<in> set referee_records. 0 < matches r"
  by code_simp

theorem matches_positive_witness:
  "referee_records ! 2 \<in> set referee_records
   \<and> matches (referee_records ! 2) = 1 \<and> 0 < matches (referee_records ! 2)"
proof -
  have r: "referee_records ! 2 \<in> set referee_records"
    by code_simp
  have m: "matches (referee_records ! 2) = 1"
    by code_simp
  from bspec [OF matches_positive r] r m
  show ?thesis by blast
qed

subsection \<open>The range of the home bias\<close>

text \<open>Wherever the formula has a value, it lies between -100 and 100.\<close>

lemma homeBias_spec_range:
  assumes "homeBias_spec h a = Some x"
  shows "- 100 \<le> x \<and> x \<le> 100"
proof -
  from assms have total: "0 < h + a"
    and x: "x = 100 * (of_nat h - of_nat a) / of_nat (h + a)"
    by (auto simp add: homeBias_spec_def split: if_splits)
  from total have d: "(0::rat) < of_nat (h + a)"
    by (simp only: of_nat_0_less_iff)
  have "- (100 * of_nat (h + a)) \<le> 100 * (of_nat h - of_nat a :: rat)"
    by simp
  with d have lower: "- 100 \<le> x"
    unfolding x by (simp add: pos_le_divide_eq)
  have "100 * (of_nat h - of_nat a :: rat) \<le> 100 * of_nat (h + a)"
    by simp
  with d have upper: "x \<le> 100"
    unfolding x by (simp add: pos_divide_le_eq)
  from lower upper show ?thesis ..
qed

text \<open>Equal counts give 0 wherever the formula has a value.\<close>

lemma homeBias_spec_equal_counts: "homeBias_spec h h = Some x \<Longrightarrow> x = 0"
  by (auto simp add: homeBias_spec_def split: if_splits)

text \<open>The formula has a value as soon as one penalty was called.\<close>

lemma homeBias_spec_defined: "0 < h + a \<Longrightarrow> homeBias_spec h a \<noteq> None"
  by (simp add: homeBias_spec_def)

text \<open>
  C8. The \<^verbatim>\<open>homeBias\<close> of every referee record of the payload lies in \<open>[-100, 100]\<close>.
  The payload holds no home and away counts; on the formula of the Statistical
  Processor, every value lies in \<open>[-100, 100]\<close> and is exactly 0 when the home and the
  away count are equal, and there is a value whenever at least one penalty was called.
\<close>

theorem homeBias_range:
  "(\<forall>r \<in> set referee_records. - 100 \<le> homeBias r \<and> homeBias r \<le> 100)
   \<and> (\<forall>h a x. homeBias_spec h a = Some x \<longrightarrow>
         - 100 \<le> x \<and> x \<le> 100 \<and> (h = a \<longrightarrow> x = 0))
   \<and> (\<forall>h a. 0 < h + a \<longrightarrow> homeBias_spec h a \<noteq> None)"
proof (intro conjI allI impI)
  show "\<forall>r \<in> set referee_records. - 100 \<le> homeBias r \<and> homeBias r \<le> 100"
    by code_simp
next
  fix h a x
  assume "homeBias_spec h a = Some x"
  then show "- 100 \<le> x" and "x \<le> 100"
    using homeBias_spec_range by blast+
next
  fix h a x
  assume "homeBias_spec h a = Some x" and "h = a"
  then show "x = 0"
    using homeBias_spec_equal_counts by blast
next
  fix h a :: nat
  assume "0 < h + a"
  then show "homeBias_spec h a \<noteq> None"
    by (rule homeBias_spec_defined)
qed

theorem homeBias_range_witness:
  "referee_records ! 4 \<in> set referee_records
   \<and> homeBias (referee_records ! 4) = - (333 / 10)
   \<and> - 100 \<le> homeBias (referee_records ! 4) \<and> homeBias (referee_records ! 4) \<le> 100
   \<and> homeBias_spec 3 3 = Some 0
   \<and> - 100 \<le> (0::rat) \<and> (0::rat) \<le> 100
   \<and> (0::nat) < 1 + 5 \<and> homeBias_spec 1 5 \<noteq> None"
proof -
  have r: "referee_records ! 4 \<in> set referee_records"
    by code_simp
  have hb: "homeBias (referee_records ! 4) = - (333 / 10)"
    by code_simp
  have v: "homeBias_spec 3 3 = Some 0"
    by code_simp
  have p: "(0::nat) < 1 + 5"
    by simp
  note all = homeBias_range
  from bspec [OF conjunct1 [OF all] r]
    conjunct1 [OF conjunct2 [OF all], rule_format, OF v]
    conjunct2 [OF conjunct2 [OF all], rule_format, OF p]
    r hb v p
  show ?thesis by blast
qed

subsection \<open>The emoji of a severity\<close>

text \<open>The four severities of the table give their emoji.\<close>

lemma getSeverityEmoji_enumerated:
  "getSeverityEmoji ''LOW'' = JStr yellow_circle"
  "getSeverityEmoji ''MEDIUM'' = JStr orange_circle"
  "getSeverityEmoji ''HIGH'' = JStr red_circle"
  "getSeverityEmoji ''CRITICAL'' = JStr warning_sign"
  by code_simp+

lemma own_property_absent: "k \<notin> set (map fst fs) \<Longrightarrow> own_property fs k = None"
  by (simp add: own_property_def map_of_eq_None_iff)

text \<open>
  A string that is neither a key of the table nor the name of an inherited property
  gives the fallback.
\<close>

lemma getSeverityEmoji_fallback:
  assumes "sev \<notin> set (map fst emojis)" and "sev \<notin> set (map fst object_prototype)"
  shows "getSeverityEmoji sev = JStr blue_circle"
proof -
  from assms(1) have "own_property emojis sev = None"
    by (rule own_property_absent)
  moreover from assms(2) have "map_of object_prototype sev = None"
    by (simp add: map_of_eq_None_iff)
  ultimately have "get_property emojis sev = JUndefined"
    by (simp add: get_property_def)
  then show ?thesis
    by (simp add: getSeverityEmoji_def js_or_def)
qed

text \<open>The function returns on every string, and never \<^verbatim>\<open>undefined\<close>.\<close>

lemma getSeverityEmoji_defined: "getSeverityEmoji sev \<noteq> JUndefined"
  by (cases "get_property emojis sev") (simp_all add: getSeverityEmoji_def js_or_def)

text \<open>
  C9. The claim is that \<^verbatim>\<open>getSeverityEmoji\<close> gives the fallback emoji on every string
  other than LOW, MEDIUM, HIGH, CRITICAL. On the string \<^verbatim>\<open>constructor\<close> the read
  \<^verbatim>\<open>emojis[severity]\<close> finds the function every object inherits under that name; it is
  truthy, so \<^verbatim>\<open>||\<close> returns it and not the fallback.
\<close>

theorem getSeverityEmoji_inherited_property:
  "getSeverityEmoji ''constructor'' = JBuiltin ''constructor''
   \<and> getSeverityEmoji ''constructor'' \<noteq> JStr blue_circle"
  by code_simp

subsection \<open>The colour of the bias\<close>

text \<open>
  C10. \<^verbatim>\<open>createRefereeCard\<close> compares strictly: the bias colour is red (\<^verbatim>\<open>#ef4444\<close>)
  exactly when \<open>homeBias > 15\<close>, blue (\<^verbatim>\<open>#3b82f6\<close>) exactly when \<open>homeBias < -15\<close>, and
  green (\<^verbatim>\<open>#10b981\<close>) otherwise; a \<open>homeBias\<close> of exactly 15 or exactly -15 is green.
\<close>

theorem biasColor_strict:
  "(biasColor (createRefereeCard r) = ''#ef4444'' \<longleftrightarrow> 15 < homeBias r)
   \<and> (biasColor (createRefereeCard r) = ''#3b82f6'' \<longleftrightarrow> homeBias r < - 15)
   \<and> (biasColor (createRefereeCard r) = ''#10b981'' \<longleftrightarrow> - 15 \<le> homeBias r \<and> homeBias r \<le> 15)
   \<and> biasColor (createRefereeCard (r\<lparr>homeBias := 15\<rparr>)) = ''#10b981''
   \<and> biasColor (createRefereeCard (r\<lparr>homeBias := - 15\<rparr>)) = ''#10b981''"
  by (auto simp add: createRefereeCard_def)

end
